theory Spec2Isabelle
  imports Main
begin

section \<open>Strings, schema setters and schema validators (models/user.js)\<close>

text \<open>
  Strings are lists of ASCII characters. The user schema declares the setters
  \<^verbatim>\<open>trim\<close> and \<^verbatim>\<open>lowercase\<close> on its string paths; Mongoose applies them when a
  value is assigned to a document and when a value is used in a query on that path.
\<close>

definition is_space :: "char \<Rightarrow> bool" where
  "is_space c = (c \<in> set [CHR 0x09, CHR 0x0A, CHR 0x0B, CHR 0x0C, CHR 0x0D, CHR 0x20])"

definition trim :: "string \<Rightarrow> string" where
  "trim s = rev (dropWhile is_space (rev (dropWhile is_space s)))"

definition lower_char :: "char \<Rightarrow> char" where
  "lower_char c =
     (case map_of (zip ''ABCDEFGHIJKLMNOPQRSTUVWXYZ'' ''abcdefghijklmnopqrstuvwxyz'') c of
        Some d \<Rightarrow> d
      | None \<Rightarrow> c)"

definition lowercase :: "string \<Rightarrow> string" where
  "lowercase s = map lower_char s"

text \<open>
  The email validator of the user schema,
  \<^verbatim>\<open>/^[^\s@]+@[^\s@]+\.[^\s@]+$/\<close>: a non-empty part free of white space before the
  first \<^verbatim>\<open>@\<close>, and after it a string free of white space and \<^verbatim>\<open>@\<close> with a dot that
  is neither its first nor its last character.
\<close>

definition email_regex :: "string \<Rightarrow> bool" where
  "email_regex s =
     (let a = takeWhile (\<lambda>c. c \<noteq> CHR ''@'') s;
          r = dropWhile (\<lambda>c. c \<noteq> CHR ''@'') s
      in a \<noteq> [] \<and> list_all (\<lambda>c. \<not> is_space c) a \<and>
         (case r of
            [] \<Rightarrow> False
          | _ # d \<Rightarrow> list_all (\<lambda>c. \<not> is_space c \<and> c \<noteq> CHR ''@'') d \<and>
                     CHR ''.'' \<in> set (butlast (tl d))))"

text \<open>
  The picture validator, \<^verbatim>\<open>/^https?:\/\/.+\.(png|jpg|jpeg|gif|webp)$/i\<close>: one of the
  two scheme prefixes, at least one character other than a line terminator, a dot and
  one of the five extensions, compared without regard to case.
\<close>

definition picture_regex :: "string \<Rightarrow> bool" where
  "picture_regex url =
     (let l = lowercase url in
      list_ex (\<lambda>pre. list_ex (\<lambda>ext.
          let suf = CHR ''.'' # ext; n = length pre; m = length suf
          in n + m < length l \<and> take n l = pre \<and> drop (length l - m) l = suf \<and>
             list_all (\<lambda>c. c \<noteq> CHR 0x0A \<and> c \<noteq> CHR 0x0D) (take (length l - n - m) (drop n l)))
        [''png'', ''jpg'', ''jpeg'', ''gif'', ''webp''])
      [''http://'', ''https://''])"

text \<open>
  The validator function of \<^verbatim>\<open>picture\<close> and \<^verbatim>\<open>profilePicture\<close>:
  \<^verbatim>\<open>if (!url) return true\<close>, otherwise the regular expression. An absent
  (\<^verbatim>\<open>undefined\<close>) picture is \<open>None\<close>.
\<close>

definition valid_picture :: "string option \<Rightarrow> bool" where
  "valid_picture pic = (case pic of None \<Rightarrow> True | Some url \<Rightarrow> url = [] \<or> picture_regex url)"

section \<open>The account document\<close>

type_synonym object_id = nat

text \<open>A \<^verbatim>\<open>Date\<close> is its number of milliseconds since the epoch.\<close>

type_synonym date = int

datatype account_status = Active | Inactive | Suspended | Pending

datatype provider_name = Google | Facebook | Github | Local

datatype token_type = Access | Refresh

text \<open>
  A bearer token as the \<^verbatim>\<open>jsonwebtoken\<close> library produces and reads it, taken
  symbolically: a well-formed token carries its payload, its \<^verbatim>\<open>iat\<close> and \<^verbatim>\<open>exp\<close>
  claims (seconds) and the secret whose HMAC signs it; every other string presented
  as a token is \<open>Malformed\<close>. Two tokens are the same string exactly when they are
  equal here.
\<close>

record jwt_payload =
  payload_id :: object_id
  payload_email :: string
  payload_displayName :: string

datatype jwt =
    Jwt (jwt_claims: jwt_payload) (jwt_iat: int) (jwt_exp: int) (jwt_key: string)
  | Malformed string

record oauth_provider =
  provider :: provider_name
  providerId :: string
  link_email :: string
  link_name :: string
  link_picture :: "string option"
  verified :: bool
  lastLogin :: date

record token_entry =
  token :: jwt
  token_kind :: token_type
  expiresAt :: date
  createdAt :: date

record user_stats =
  totalRecords :: int
  totalCities :: int
  totalCountries :: int
  lastRecordDate :: "date option"
  favoriteCities :: "(string \<times> int) list"
  favoriteCountries :: "(string \<times> int) list"

text \<open>
  The user document. \<open>oid\<close> is \<^verbatim>\<open>_id\<close>. The paths \<^verbatim>\<open>localAuth\<close> and
  \<^verbatim>\<open>preferences\<close> are left out: no operation below reads or writes them.
\<close>

record user =
  oid :: object_id
  email :: string
  displayName :: string
  profilePicture :: "string option"
  providers :: "oauth_provider list"
  records :: "object_id list"
  stats :: user_stats
  status :: account_status
  accountCreated :: date
  lastActive :: date
  tokens :: "token_entry list"

text \<open>The \<^verbatim>\<open>users\<close> collection, in its natural order.\<close>

type_synonym store = "user list"

text \<open>Everything the modelled code can throw, named as \<^verbatim>\<open>error.name\<close> reads.\<close>

datatype error =
    TypeError
  | ValidationError
  | DuplicateKeyError
  | TokenExpiredError
  | JsonWebTokenError
  | SignError

text \<open>
  Validation of a provider sub-document (\<^verbatim>\<open>oauthProviderSchema\<close>): \<^verbatim>\<open>providerId\<close>,
  \<^verbatim>\<open>email\<close> and \<^verbatim>\<open>name\<close> are required (a required string is non-empty), the name has
  at most 100 characters, the picture passes its validator. The \<^verbatim>\<open>provider\<close> enum is
  the type \<open>provider_name\<close>.
\<close>

definition valid_provider :: "oauth_provider \<Rightarrow> bool" where
  "valid_provider p =
     (providerId p \<noteq> [] \<and> link_email p \<noteq> [] \<and> link_name p \<noteq> [] \<and>
      length (link_name p) \<le> 100 \<and> valid_picture (link_picture p))"

text \<open>Validation of a user document (\<^verbatim>\<open>userSchema\<close>), run by every \<^verbatim>\<open>save()\<close>.\<close>

definition valid_user :: "user \<Rightarrow> bool" where
  "valid_user u =
     (email u \<noteq> [] \<and> email_regex (email u) \<and>
      displayName u \<noteq> [] \<and> length (displayName u) \<le> 100 \<and>
      valid_picture (profilePicture u) \<and>
      list_all valid_provider (providers u))"

section \<open>Store operations (Mongoose)\<close>

text \<open>
  The collection always answers: a lost connection, which every handler below would
  meet in its \<^verbatim>\<open>catch\<close> block, is not modelled.
\<close>

definition findById :: "store \<Rightarrow> object_id \<Rightarrow> user option" where
  "findById s i = find (\<lambda>u. oid u = i) s"

text \<open>An update of one document: the first that matches the filter, if any.\<close>

fun updateOne :: "(user \<Rightarrow> bool) \<Rightarrow> (user \<Rightarrow> user) \<Rightarrow> store \<Rightarrow> store" where
  "updateOne P f [] = []"
| "updateOne P f (u # us) = (if P u then f u # us else u # updateOne P f us)"

text \<open>
  \<^verbatim>\<open>doc.save()\<close> on a document loaded from the collection; \<open>delta\<close> is what the
  caller assigned to the document since it was loaded. Mongoose validates the loaded
  document and rejects, writing nothing, when a validator fails. A document that the
  assignments left as it was is not written. Otherwise the document is modified and
  not new, so the pre-save hook of the schema stamps \<^verbatim>\<open>lastActive\<close>, and the
  modified paths are written to the stored document of the same \<^verbatim>\<open>_id\<close>.
\<close>

definition save :: "date \<Rightarrow> (user \<Rightarrow> user) \<Rightarrow> user \<Rightarrow> store \<Rightarrow> (error + user) \<times> store" where
  "save now delta doc s =
     (if \<not> valid_user (delta doc) then (Inl ValidationError, s)
      else if delta doc = doc then (Inr doc, s)
      else (Inr ((delta doc)\<lparr>lastActive := now\<rparr>),
            updateOne (\<lambda>u. oid u = oid doc) (\<lambda>u. (delta u)\<lparr>lastActive := now\<rparr>) s))"

text \<open>
  \<^verbatim>\<open>doc.save()\<close> on a document made with \<^verbatim>\<open>new User(...)\<close>: validation, then the
  insert, which the unique index on \<^verbatim>\<open>email\<close> refuses with a duplicate-key error when
  the collection already holds that email.
\<close>

definition save_new :: "user \<Rightarrow> store \<Rightarrow> (error + user) \<times> store" where
  "save_new doc s =
     (if \<not> valid_user doc then (Inl ValidationError, s)
      else if list_ex (\<lambda>u. email u = email doc) s then (Inl DuplicateKeyError, s)
      else (Inr doc, s @ [doc]))"

section \<open>Instance methods of the user model\<close>


text \<open>\<^verbatim>\<open>userSchema.methods.updateLastActive\<close>.\<close>

definition updateLastActive :: "date \<Rightarrow> user \<Rightarrow> store \<Rightarrow> (error + user) \<times> store" where
  "updateLastActive now this s = save now (\<lambda>u. u\<lparr>lastActive := now\<rparr>) this s"

section \<open>Bearer tokens (routes/authRoutes.js, jsonwebtoken)\<close>

text \<open>
  The process environment. An unset variable and an empty one are both the empty
  string: every use below tests the value for truthiness or compares it with a
  non-empty string. The two lifetimes are the configured time spans in seconds,
  \<open>None\<close> when the variable is unset, so that the code's default applies.
\<close>

record env =
  JWT_SECRET :: string
  JWT_REFRESH_SECRET :: string
  JWT_ACCESS_EXPIRES_IN :: "int option"
  JWT_REFRESH_EXPIRES_IN :: "int option"
  API_KEY :: string

text \<open>
  \<^verbatim>\<open>jwt.sign(payload, secret, { expiresIn })\<close>: throws without a secret; otherwise
  \<^verbatim>\<open>iat\<close> is the clock in whole seconds and \<^verbatim>\<open>exp\<close> is \<^verbatim>\<open>iat\<close> plus the span.
\<close>

definition jwt_sign :: "jwt_payload \<Rightarrow> string \<Rightarrow> int \<Rightarrow> date \<Rightarrow> error + jwt" where
  "jwt_sign payload secret expiresIn now =
     (if secret = [] then Inl SignError
      else Inr (Jwt payload (now div 1000) (now div 1000 + expiresIn) secret))"

text \<open>
  \<^verbatim>\<open>jwt.verify(token, secret)\<close>: a string that is no token, a missing secret and a
  signature that does not verify under the secret all throw \<^verbatim>\<open>JsonWebTokenError\<close>;
  only then is the expiry read, and a clock at or past \<^verbatim>\<open>exp\<close> throws
  \<^verbatim>\<open>TokenExpiredError\<close>.
\<close>

definition jwt_verify :: "jwt \<Rightarrow> string \<Rightarrow> date \<Rightarrow> error + jwt_payload" where
  "jwt_verify tok secret now =
     (case tok of
        Malformed _ \<Rightarrow> Inl JsonWebTokenError
      | Jwt payload issued expires k \<Rightarrow>
          if secret = [] then Inl JsonWebTokenError
          else if k \<noteq> secret then Inl JsonWebTokenError
          else if expires \<le> now div 1000 then Inl TokenExpiredError
          else Inr payload)"

text \<open>\<^verbatim>\<open>generateTokens\<close>; the defaults \<^verbatim>\<open>'15m'\<close> and \<^verbatim>\<open>'7d'\<close> are 900 and 604800 seconds.\<close>

definition generateTokens :: "env \<Rightarrow> date \<Rightarrow> user \<Rightarrow> error + jwt \<times> jwt" where
  "generateTokens e now user =
     (let payload = \<lparr>payload_id = oid user, payload_email = email user,
                      payload_displayName = displayName user\<rparr>
      in case jwt_sign payload (JWT_SECRET e)
                (case JWT_ACCESS_EXPIRES_IN e of None \<Rightarrow> 900 | Some n \<Rightarrow> n) now of
           Inl err \<Rightarrow> Inl err
         | Inr accessToken \<Rightarrow>
             (case jwt_sign payload (JWT_REFRESH_SECRET e)
                     (case JWT_REFRESH_EXPIRES_IN e of None \<Rightarrow> 604800 | Some n \<Rightarrow> n) now of
                Inl err \<Rightarrow> Inl err
              | Inr refreshToken \<Rightarrow> Inr (accessToken, refreshToken)))"

section \<open>Requests, replies and middleware\<close>

text \<open>
  A parsed JSON value as JavaScript holds it, with \<^verbatim>\<open>undefined\<close> for what is absent.
  An object lists each of its keys once.
\<close>

datatype json =
    JUndefined
  | JNull
  | JBool bool
  | JNumber int
  | JString string
  | JArray "json list"
  | JObject "(string \<times> json) list"

text \<open>
  What the middleware reads of a request. \<open>authorization\<close> is the header after
  \<^verbatim>\<open>split(' ')\<close>, each piece read as a token (\<open>Malformed\<close> text when it is none);
  \<open>req_user\<close> is \<^verbatim>\<open>req.user\<close>.
\<close>

record request =
  ip :: string
  x_api_key :: "string option"
  authorization :: "jwt list option"
  body :: json
  req_user :: "user option"

text \<open>A failure reply: the HTTP status and the \<^verbatim>\<open>code\<close> field of the JSON body.\<close>

datatype reply = Reply (http_status: nat) (code: string)

text \<open>\<^verbatim>\<open>authHeader && authHeader.split(' ')[1]\<close>.\<close>

definition bearer :: "jwt list option \<Rightarrow> jwt option" where
  "bearer authHeader =
     (case authHeader of
        None \<Rightarrow> None
      | Some pieces \<Rightarrow> if 1 < length pieces then Some (pieces ! 1) else None)"

text \<open>\<^verbatim>\<open>authenticateToken\<close> (routes/authRoutes.js). The projection drops \<^verbatim>\<open>tokens\<close>.\<close>

definition authenticateToken :: "env \<Rightarrow> date \<Rightarrow> store \<Rightarrow> request \<Rightarrow> reply + request" where
  "authenticateToken e now s req =
     (case bearer (authorization req) of
        None \<Rightarrow> Inl (Reply 401 ''MISSING_TOKEN'')
      | Some tok \<Rightarrow>
          if tok = Malformed [] then Inl (Reply 401 ''MISSING_TOKEN'')
          else (case jwt_verify tok (JWT_SECRET e) now of
                  Inl err \<Rightarrow>
                    if err = TokenExpiredError then Inl (Reply 401 ''TOKEN_EXPIRED'')
                    else Inl (Reply 403 ''TOKEN_VERIFICATION_FAILED'')
                | Inr decoded \<Rightarrow>
                    (case findById s (payload_id decoded) of
                       None \<Rightarrow> Inl (Reply 401 ''INVALID_TOKEN'')
                     | Some user \<Rightarrow>
                         if status user \<noteq> Active then Inl (Reply 401 ''INVALID_TOKEN'')
                         else Inr (req\<lparr>req_user := Some (user\<lparr>tokens := []\<rparr>)\<rparr>))))"

text \<open>
  \<^verbatim>\<open>validateApiKey\<close> (routes/dataRoutes.js). Nothing in its \<^verbatim>\<open>try\<close> block throws,
  so its \<^verbatim>\<open>catch\<close> block (500 \<^verbatim>\<open>API_KEY_VALIDATION_ERROR\<close>) is never entered.
\<close>

definition validateApiKey :: "env \<Rightarrow> request \<Rightarrow> reply + request" where
  "validateApiKey e req =
     (case x_api_key req of
        None \<Rightarrow> Inl (Reply 401 ''MISSING_API_KEY'')
      | Some apiKey \<Rightarrow>
          if apiKey = [] then Inl (Reply 401 ''MISSING_API_KEY'')
          else if apiKey \<noteq> API_KEY e then Inl (Reply 403 ''INVALID_API_KEY'')
          else Inr req)"

text \<open>\<^verbatim>\<open>validateOAuthToken\<close> (routes/dataRoutes.js).\<close>

definition validateOAuthToken :: "env \<Rightarrow> date \<Rightarrow> store \<Rightarrow> request \<Rightarrow> reply + request" where
  "validateOAuthToken e now s req =
     (case bearer (authorization req) of
        None \<Rightarrow> Inl (Reply 401 ''MISSING_TOKEN'')
      | Some tok \<Rightarrow>
          if tok = Malformed [] then Inl (Reply 401 ''MISSING_TOKEN'')
          else (case jwt_verify tok (JWT_SECRET e) now of
                  Inl err \<Rightarrow>
                    if err = TokenExpiredError then Inl (Reply 401 ''TOKEN_EXPIRED'')
                    else Inl (Reply 403 ''TOKEN_VERIFICATION_FAILED'')
                | Inr decoded \<Rightarrow>
                    (case findById s (payload_id decoded) of
                       None \<Rightarrow> Inl (Reply 401 ''INVALID_TOKEN'')
                     | Some user \<Rightarrow>
                         if status user \<noteq> Active then Inl (Reply 401 ''INVALID_TOKEN'')
                         else Inr (req\<lparr>req_user := Some (user\<lparr>tokens := []\<rparr>)\<rparr>))))"

text \<open>
  A limiter of \<^verbatim>\<open>express-rate-limit\<close> within one window: it counts the request
  against the caller's address and replies 429 with the configured message once the
  count is above \<^verbatim>\<open>max\<close>. The state is the number of hits per address.
\<close>

type_synonym limiter = "string \<Rightarrow> nat"

definition rateLimit :: "nat \<Rightarrow> string \<Rightarrow> limiter \<Rightarrow> request \<Rightarrow> (reply + request) \<times> limiter" where
  "rateLimit limit msg_code hits req =
     (let n = Suc (hits (ip req)); hits' = hits(ip req := n)
      in if limit < n then (Inl (Reply 429 msg_code), hits') else (Inr req, hits'))"

definition dataLimiter :: "limiter \<Rightarrow> request \<Rightarrow> (reply + request) \<times> limiter" where
  "dataLimiter = rateLimit 100 ''RATE_LIMIT_EXCEEDED''"

text \<open>Truthiness and property access of a JSON value.\<close>

definition falsy :: "json \<Rightarrow> bool" where
  "falsy j = (j = JUndefined \<or> j = JNull \<or> j = JBool False \<or> j = JNumber 0 \<or> j = JString [])"

fun field :: "json \<Rightarrow> string \<Rightarrow> json" where
  "field (JObject kvs) k = (case map_of kvs k of Some v \<Rightarrow> v | None \<Rightarrow> JUndefined)"
| "field _ k = JUndefined"

definition missing :: "json \<Rightarrow> string \<Rightarrow> bool" where
  "missing obj k = (field obj k = JUndefined \<or> field obj k = JNull)"

fun nonempty_array :: "json \<Rightarrow> bool" where
  "nonempty_array (JArray xs) = (xs \<noteq> [])"
| "nonempty_array _ = False"

definition requiredWeatherFields :: "string list" where
  "requiredWeatherFields =
     [''city'', ''country'', ''temperature'', ''feels_like'', ''humidity'', ''pressure'',
      ''wind_speed'', ''visibility'', ''cloudiness'', ''description'', ''icon'']"

definition requiredCountryFields :: "string list" where
  "requiredCountryFields =
     [''name'', ''population'', ''area'', ''region'', ''languages'', ''currencies'',
      ''timezones'', ''flag'']"

text \<open>
  \<^verbatim>\<open>validateInputData\<close> (routes/dataRoutes.js). Destructuring a body that is
  \<^verbatim>\<open>undefined\<close> or \<^verbatim>\<open>null\<close> throws, which the middleware's \<^verbatim>\<open>catch\<close> answers with 500.
\<close>

definition validateInputData :: "request \<Rightarrow> reply + request" where
  "validateInputData req =
     (if body req = JUndefined \<or> body req = JNull then Inl (Reply 500 ''INPUT_VALIDATION_ERROR'')
      else
        (let weather = field (body req) ''weather''; country = field (body req) ''country''
         in if falsy weather \<or> falsy country then Inl (Reply 400 ''MISSING_REQUIRED_FIELDS'')
            else if find (missing weather) requiredWeatherFields \<noteq> None
              then Inl (Reply 400 ''MISSING_WEATHER_FIELD'')
            else if find (missing country) requiredCountryFields \<noteq> None
              then Inl (Reply 400 ''MISSING_COUNTRY_FIELD'')
            else if \<not> nonempty_array (field country ''languages'')
              then Inl (Reply 400 ''INVALID_LANGUAGES_ARRAY'')
            else if \<not> nonempty_array (field country ''currencies'')
              then Inl (Reply 400 ''INVALID_CURRENCIES_ARRAY'')
            else if \<not> nonempty_array (field country ''timezones'')
              then Inl (Reply 400 ''INVALID_TIMEZONES_ARRAY'')
            else Inr req))"

text \<open>
  Express runs the middleware of a route in the order the route lists them: each
  either replies, which ends the request, or calls \<^verbatim>\<open>next()\<close>. The run records
  which stages executed.
\<close>

datatype stage = RateLimit | SharedSecret | BearerToken | InputValidation

type_synonym middleware = "limiter \<Rightarrow> request \<Rightarrow> (reply + request) \<times> limiter"

fun run_chain :: "(stage \<times> middleware) list \<Rightarrow> limiter \<Rightarrow> request \<Rightarrow>
    stage list \<times> (reply + request) \<times> limiter" where
  "run_chain [] hits req = ([], Inr req, hits)"
| "run_chain ((name, m) # ms) hits req =
     (case m hits req of
        (Inl r, hits') \<Rightarrow> ([name], Inl r, hits')
      | (Inr req', hits') \<Rightarrow>
          (case run_chain ms hits' req' of (executed, out, hits'') \<Rightarrow> (name # executed, out, hits'')))"

text \<open>A middleware that does not touch the limiter.\<close>

definition stateless :: "(request \<Rightarrow> reply + request) \<Rightarrow> middleware" where
  "stateless m hits req = (m req, hits)"

text \<open>
  The three checks that every route of routes/dataRoutes.js lists first, in the order
  the routes list them.
\<close>

definition gate :: "env \<Rightarrow> date \<Rightarrow> store \<Rightarrow> (stage \<times> middleware) list" where
  "gate e now s =
     [(RateLimit, dataLimiter),
      (SharedSecret, stateless (validateApiKey e)),
      (BearerToken, stateless (validateOAuthToken e now s))]"

text \<open>
  \<^verbatim>\<open>router.post('/records', dataLimiter, validateApiKey, validateOAuthToken,
  validateInputData, handler)\<close>: the chain in front of the handler.
\<close>

definition post_records :: "env \<Rightarrow> date \<Rightarrow> store \<Rightarrow> (stage \<times> middleware) list" where
  "post_records e now s = gate e now s @ [(InputValidation, stateless validateInputData)]"

text \<open>
  \<^verbatim>\<open>router.get('/records', dataLimiter, validateApiKey, validateOAuthToken, handler)\<close>;
  \<^verbatim>\<open>GET /analytics\<close> and \<^verbatim>\<open>GET /records/stats\<close> list the same three.
\<close>

definition get_records :: "env \<Rightarrow> date \<Rightarrow> store \<Rightarrow> (stage \<times> middleware) list" where
  "get_records e now s = gate e now s"

section \<open>Refresh and logout (routes/authRoutes.js)\<close>

text \<open>The \<^verbatim>\<open>catch\<close> block of \<^verbatim>\<open>POST /auth/refresh\<close>.\<close>

definition refresh_catch :: "error \<Rightarrow> reply" where
  "refresh_catch err =
     (if err = TokenExpiredError then Reply 401 ''REFRESH_TOKEN_EXPIRED''
      else Reply 500 ''TOKEN_REFRESH_ERROR'')"

text \<open>
  The filter of the \<^verbatim>\<open>findOne\<close> of the refresh handler. MongoDB reads conditions on
  dotted paths into an array of sub-documents one by one: each must hold of some
  element of the array, not all of the same element (that would take
  \<^verbatim>\<open>$elemMatch\<close>).
\<close>

definition refresh_filter :: "object_id \<Rightarrow> jwt \<Rightarrow> date \<Rightarrow> user \<Rightarrow> bool" where
  "refresh_filter i tok now u =
     (oid u = i \<and>
      list_ex (\<lambda>t. token t = tok) (tokens u) \<and>
      list_ex (\<lambda>t. token_kind t = Refresh) (tokens u) \<and>
      list_ex (\<lambda>t. now < expiresAt t) (tokens u))"

text \<open>
  The handler of \<^verbatim>\<open>POST /auth/refresh\<close>; the argument is \<^verbatim>\<open>req.body.refreshToken\<close>.
  \<open>Inr\<close> is the 200 reply with the new access token.
\<close>

definition refresh :: "env \<Rightarrow> date \<Rightarrow> store \<Rightarrow> jwt option \<Rightarrow> (reply + jwt) \<times> store" where
  "refresh e now s refreshToken =
     (case refreshToken of
        None \<Rightarrow> (Inl (Reply 400 ''MISSING_REFRESH_TOKEN''), s)
      | Some tok \<Rightarrow>
          if tok = Malformed [] then (Inl (Reply 400 ''MISSING_REFRESH_TOKEN''), s)
          else (case jwt_verify tok (JWT_REFRESH_SECRET e) now of
                  Inl err \<Rightarrow> (Inl (refresh_catch err), s)
                | Inr decoded \<Rightarrow>
                    (case find (refresh_filter (payload_id decoded) tok now) s of
                       None \<Rightarrow> (Inl (Reply 401 ''INVALID_REFRESH_TOKEN''), s)
                     | Some user \<Rightarrow>
                         if status user \<noteq> Active
                         then (Inl (Reply 401 ''INVALID_REFRESH_TOKEN''), s)
                         else (case generateTokens e now user of
                                 Inl err \<Rightarrow> (Inl (refresh_catch err), s)
                               | Inr (accessToken, _) \<Rightarrow>
                                   (case updateLastActive now user s of
                                      (Inl err, s') \<Rightarrow> (Inl (refresh_catch err), s')
                                    | (Inr _, s') \<Rightarrow> (Inr accessToken, s'))))))"

text \<open>
  The handler of \<^verbatim>\<open>POST /auth/logout\<close>, behind \<^verbatim>\<open>authenticateToken\<close>: \<open>this\<close> is
  \<^verbatim>\<open>req.user\<close>, the last argument \<^verbatim>\<open>req.body.refreshToken\<close>. \<^verbatim>\<open>$pull\<close> removes the
  elements that meet both conditions; \<^verbatim>\<open>$set\<close> empties the array. \<open>Inr ()\<close> is the
  200 reply; the 500 reply of the \<^verbatim>\<open>catch\<close> block needs a failing store.
\<close>

definition logout :: "store \<Rightarrow> user \<Rightarrow> jwt option \<Rightarrow> (reply + unit) \<times> store" where
  "logout s this refreshToken =
     (if refreshToken \<noteq> None \<and> refreshToken \<noteq> Some (Malformed [])
      then (Inr (),
            updateOne (\<lambda>u. oid u = oid this)
              (\<lambda>u. u\<lparr>tokens := filter (\<lambda>t. \<not> (Some (token t) = refreshToken \<and>
                                                token_kind t = Refresh)) (tokens u)\<rparr>) s)
      else (Inr (), updateOne (\<lambda>u. oid u = oid this) (\<lambda>u. u\<lparr>tokens := []\<rparr>) s))"

text \<open>The refresh records an account holds in the collection.\<close>

definition stored_tokens :: "store \<Rightarrow> object_id \<Rightarrow> token_entry list" where
  "stored_tokens s i = (case findById s i of None \<Rightarrow> [] | Some u \<Rightarrow> tokens u)"

section \<open>Identity resolution (config/passport.js)\<close>

text \<open>
  The profile \<^verbatim>\<open>passport-google-oauth20\<close> hands to the verify callback: \<^verbatim>\<open>emails\<close>
  and \<^verbatim>\<open>photos\<close> are arrays of values, or absent.
\<close>

record profile =
  profile_id :: string
  profile_displayName :: string
  profile_emails :: "string list option"
  profile_photos :: "string list option"

text \<open>
  \<^verbatim>\<open>User.findByOAuthProvider\<close>: two conditions on dotted paths into \<^verbatim>\<open>providers\<close>,
  each to hold of some element.
\<close>

definition findByOAuthProvider :: "store \<Rightarrow> provider_name \<Rightarrow> string \<Rightarrow> user option" where
  "findByOAuthProvider s prov pid =
     find (\<lambda>u. list_ex (\<lambda>p. provider p = prov) (providers u) \<and>
               list_ex (\<lambda>p. providerId p = pid) (providers u)) s"

text \<open>\<^verbatim>\<open>User.findOne({ email })\<close>; the query value passes the setters of the path.\<close>

definition findOne_email :: "store \<Rightarrow> string \<Rightarrow> user option" where
  "findOne_email s em = find (\<lambda>u. email u = lowercase (trim em)) s"

text \<open>\<^verbatim>\<open>Array.prototype.findIndex\<close>, with \<open>None\<close> for \<^verbatim>\<open>-1\<close>.\<close>

fun findIndex :: "('a \<Rightarrow> bool) \<Rightarrow> 'a list \<Rightarrow> nat option" where
  "findIndex P [] = None"
| "findIndex P (x # xs) = (if P x then Some 0 else map_option Suc (findIndex P xs))"

text \<open>The provider sub-document the callback builds, after the setters of its schema.\<close>

definition google_link :: "profile \<Rightarrow> string \<Rightarrow> string option \<Rightarrow> date \<Rightarrow> oauth_provider" where
  "google_link pr em pic now =
     \<lparr>provider = Google, providerId = profile_id pr, link_email = lowercase (trim em),
      link_name = trim (profile_displayName pr), link_picture = map_option trim pic,
      verified = True, lastLogin = now\<rparr>"

text \<open>
  \<^verbatim>\<open>new User({...})\<close> of the callback, with the setters and the defaults of the
  schema; \<open>new_id\<close> is the \<^verbatim>\<open>_id\<close> the driver generates.
\<close>

definition new_google_user :: "object_id \<Rightarrow> profile \<Rightarrow> string \<Rightarrow> string option \<Rightarrow> date \<Rightarrow> user" where
  "new_google_user new_id pr em pic now =
     \<lparr>oid = new_id, email = lowercase (trim em), displayName = trim (profile_displayName pr),
      profilePicture = map_option trim pic, providers = [google_link pr em pic now],
      records = [],
      stats = \<lparr>totalRecords = 0, totalCities = 0, totalCountries = 0, lastRecordDate = None,
               favoriteCities = [], favoriteCountries = []\<rparr>,
      status = Active, accountCreated = now, lastActive = now, tokens = []\<rparr>"

text \<open>\<^verbatim>\<open>profile.photos[0]?.value\<close>: throws when \<^verbatim>\<open>photos\<close> is absent.\<close>

definition first_photo :: "profile \<Rightarrow> error + string option" where
  "first_photo pr =
     (case profile_photos pr of
        None \<Rightarrow> Inl TypeError
      | Some [] \<Rightarrow> Inr None
      | Some (v # _) \<Rightarrow> Inr (Some v))"

text \<open>\<^verbatim>\<open>user.providers[providerIndex].lastLogin = new Date()\<close>.\<close>

definition set_lastLogin :: "nat \<Rightarrow> date \<Rightarrow> user \<Rightarrow> user" where
  "set_lastLogin providerIndex now u =
     u\<lparr>providers := (providers u)
         [providerIndex := (providers u ! providerIndex)\<lparr>lastLogin := now\<rparr>]\<rparr>"

text \<open>\<^verbatim>\<open>existingUser.providers.push({...})\<close>.\<close>

definition push_provider :: "oauth_provider \<Rightarrow> user \<Rightarrow> user" where
  "push_provider link u = u\<lparr>providers := providers u @ [link]\<rparr>"

text \<open>
  The verify callback of the Google strategy. The result is what \<^verbatim>\<open>done\<close> receives:
  \<open>Inl\<close> the error of \<^verbatim>\<open>done(error, null)\<close>, \<open>Inr\<close> the account and \<^verbatim>\<open>isNewUser\<close>.
  Every \<^verbatim>\<open>await\<close> suspends the callback, so the collection its write meets can differ
  from the one its lookups read: \<open>s\<close> is the collection the lookups read, \<open>s'\<close> the
  collection the \<^verbatim>\<open>save()\<close> meets (\<open>s' = s\<close> when no other request wrote in
  between). The collection returned is the one the write leaves.
\<close>

definition google_verify ::
    "date \<Rightarrow> object_id \<Rightarrow> profile \<Rightarrow> store \<Rightarrow> store \<Rightarrow> (error + user \<times> bool) \<times> store" where
  "google_verify now new_id pr s s' =
     (case profile_emails pr of
        None \<Rightarrow> (Inl TypeError, s')
      | Some [] \<Rightarrow> (Inl TypeError, s')
      | Some (em # _) \<Rightarrow>
          (case findByOAuthProvider s Google (profile_id pr) of
             Some user \<Rightarrow>
               (case findIndex (\<lambda>p. provider p = Google \<and> providerId p = profile_id pr)
                       (providers user) of
                  Some providerIndex \<Rightarrow>
                    (case save now (set_lastLogin providerIndex now) user s' of
                       (Inl err, t) \<Rightarrow> (Inl err, t)
                     | (Inr user', t) \<Rightarrow> (Inr (user', False), t))
                | None \<Rightarrow> (Inr (user, False), s'))
           | None \<Rightarrow>
               (case findOne_email s em of
                  Some existingUser \<Rightarrow>
                    (case first_photo pr of
                       Inl err \<Rightarrow> (Inl err, s')
                     | Inr pic \<Rightarrow>
                         (case save now (push_provider (google_link pr em pic now))
                                 existingUser s' of
                            (Inl err, t) \<Rightarrow> (Inl err, t)
                          | (Inr user', t) \<Rightarrow> (Inr (user', False), t)))
                | None \<Rightarrow>
                    (case first_photo pr of
                       Inl err \<Rightarrow> (Inl err, s')
                     | Inr pic \<Rightarrow>
                         (case save_new (new_google_user new_id pr em pic now) s' of
                            (Inl err, t) \<Rightarrow> (Inl err, t)
                          | (Inr newUser, t) \<Rightarrow> (Inr (newUser, True), t))))))"

text \<open>
  The handler of \<^verbatim>\<open>GET /auth/google/callback\<close>, after the strategy: it issues the
  pair, stores the refresh record with an expiry seven days ahead, and stamps the
  account. \<open>Inr\<close> is the redirect that carries the pair, \<open>Inl\<close> the redirect to the
  error page.
\<close>

definition google_callback :: "env \<Rightarrow> date \<Rightarrow> user \<Rightarrow> store \<Rightarrow> (error + jwt \<times> jwt) \<times> store" where
  "google_callback e now user s =
     (case generateTokens e now user of
        Inl err \<Rightarrow> (Inl err, s)
      | Inr (accessToken, refreshToken) \<Rightarrow>
          (case save now
                  (\<lambda>u. u\<lparr>tokens := tokens u @
                      [\<lparr>token = refreshToken, token_kind = Refresh,
                        expiresAt = now + 7 * 24 * 60 * 60 * 1000, createdAt = now\<rparr>]\<rparr>)
                  user s of
             (Inl err, t) \<Rightarrow> (Inl err, t)
           | (Inr user', t) \<Rightarrow>
               (case updateLastActive now user' t of
                  (Inl err, t') \<Rightarrow> (Inl err, t')
                | (Inr _, t') \<Rightarrow> (Inr (accessToken, refreshToken), t'))))"

section \<open>Example data for the concrete instances\<close>

definition alice :: user where
  "alice =
     \<lparr>oid = 1, email = ''a@x.com'', displayName = ''Alice'', profilePicture = None,
      providers = [\<lparr>provider = Google, providerId = ''g1'', link_email = ''a@x.com'',
                    link_name = ''Alice'', link_picture = None, verified = True, lastLogin = 0\<rparr>],
      records = [7],
      stats = \<lparr>totalRecords = 1, totalCities = 0, totalCountries = 0, lastRecordDate = None,
               favoriteCities = [], favoriteCountries = []\<rparr>,
      status = Active, accountCreated = 0, lastActive = 0, tokens = []\<rparr>"

definition env0 :: env where
  "env0 = \<lparr>JWT_SECRET = ''access-secret'', JWT_REFRESH_SECRET = ''refresh-secret'',
            JWT_ACCESS_EXPIRES_IN = None, JWT_REFRESH_EXPIRES_IN = None, API_KEY = ''app-key''\<rparr>"

definition req0 :: request where
  "req0 = \<lparr>ip = ''10.0.0.1'', x_api_key = Some ''app-key'', authorization = None,
            body = JObject [], req_user = None\<rparr>"

definition alice_logged_in :: user where
  "alice_logged_in =
     alice\<lparr>tokens :=
       [\<lparr>token = Jwt \<lparr>payload_id = 1, payload_email = ''a@x.com'',
                        payload_displayName = ''Alice''\<rparr> 5 604805 ''refresh-secret'',
         token_kind = Refresh, expiresAt = 604805000, createdAt = 5000\<rparr>]\<rparr>"

definition access0 :: jwt where
  "access0 = Jwt \<lparr>payload_id = 1, payload_email = ''a@x.com'', payload_displayName = ''Alice''\<rparr>
               5 905 ''access-secret''"

definition refresh0 :: jwt where
  "refresh0 = Jwt \<lparr>payload_id = 1, payload_email = ''a@x.com'', payload_displayName = ''Alice''\<rparr>
               5 604805 ''refresh-secret''"

definition forged0 :: jwt where
  "forged0 = Jwt \<lparr>payload_id = 1, payload_email = ''a@x.com'', payload_displayName = ''Alice''\<rparr>
               5 905 ''guessed-secret''"

text \<open>A request with the header \<^verbatim>\<open>Authorization: Bearer <token>\<close>.\<close>

definition with_bearer :: "request \<Rightarrow> jwt \<Rightarrow> request" where
  "with_bearer req tok = req\<lparr>authorization := Some [Malformed ''Bearer'', tok]\<rparr>"

definition alice_suspended :: user where
  "alice_suspended = alice\<lparr>status := Suspended\<rparr>"

text \<open>
  A deployment whose refresh tokens live 30 days, and \<open>alice\<close> after a login at day 0
  and another at day 10.
\<close>

definition env30 :: env where
  "env30 = env0\<lparr>JWT_REFRESH_EXPIRES_IN := Some (30 * 24 * 60 * 60)\<rparr>"

definition session1 :: jwt where
  "session1 = Jwt \<lparr>payload_id = 1, payload_email = ''a@x.com'', payload_displayName = ''Alice''\<rparr>
                0 2592000 ''refresh-secret''"

definition session2 :: jwt where
  "session2 = Jwt \<lparr>payload_id = 1, payload_email = ''a@x.com'', payload_displayName = ''Alice''\<rparr>
                864000 3456000 ''refresh-secret''"

definition alice_two_sessions :: user where
  "alice_two_sessions =
     alice\<lparr>lastActive := 864000000,
           tokens :=
             [\<lparr>token = session1, token_kind = Refresh, expiresAt = 604800000, createdAt = 0\<rparr>,
              \<lparr>token = session2, token_kind = Refresh, expiresAt = 1468800000,
                createdAt = 864000000\<rparr>]\<rparr>"

text \<open>
  Four assertions: \<open>alice\<close> again, her email under another Google subject, a new
  user, and a new user whose picture is a Google avatar URL.
\<close>

definition returning_profile :: profile where
  "returning_profile = \<lparr>profile_id = ''g1'', profile_displayName = ''Alice'',
      profile_emails = Some [''a@x.com''], profile_photos = Some []\<rparr>"

definition linking_profile :: profile where
  "linking_profile = \<lparr>profile_id = ''g2'', profile_displayName = ''Alice B'',
      profile_emails = Some [''A@x.com''], profile_photos = Some []\<rparr>"

definition bob_profile :: profile where
  "bob_profile = \<lparr>profile_id = ''g3'', profile_displayName = ''Bob'',
      profile_emails = Some [''b@x.com''], profile_photos = Some []\<rparr>"


definition bob :: user where
  "bob = new_google_user 2 bob_profile ''b@x.com'' None 900"

text \<open>Two accounts, the first with a link of another provider.\<close>

definition carol :: user where
  "carol = alice\<lparr>oid := 3, email := ''carol@x.com'',
     providers := [\<lparr>provider = Google, providerId = ''g9'', link_email = ''carol@x.com'',
                     link_name = ''Carol'', link_picture = None, verified = True, lastLogin = 0\<rparr>,
                   \<lparr>provider = Github, providerId = ''h1'', link_email = ''carol@x.com'',
                     link_name = ''Carol'', link_picture = None, verified = True, lastLogin = 0\<rparr>]\<rparr>"

definition dave :: user where
  "dave = alice\<lparr>oid := 4, email := ''dave@x.com'',
     providers := [\<lparr>provider = Google, providerId = ''h1'', link_email = ''dave@x.com'',
                     link_name = ''Dave'', link_picture = None, verified = True, lastLogin = 0\<rparr>]\<rparr>"

section \<open>Facts about the store operations\<close>




lemma valid_alice: "valid_user alice"
  by (simp add: alice_def valid_user_def valid_provider_def valid_picture_def email_regex_def
      is_space_def)

lemma findById_updateOne:
  "(\<And>u. oid (f u) = oid u) \<Longrightarrow>
   findById (updateOne (\<lambda>u. oid u = i) f s) j =
     (if j = i then map_option f (findById s i) else findById s j)"
  by (induction s) (auto simp: findById_def)

lemma updateOne_idem:
  "(\<And>u. P u \<Longrightarrow> P (f u) \<and> f (f u) = f u) \<Longrightarrow>
   updateOne P f (updateOne P f s) = updateOne P f s"
  by (induction s) auto

section \<open>Adding a record reference\<close>



section \<open>Revocation\<close>

text \<open>
  A logout changes only stored token records, which \<^verbatim>\<open>authenticateToken\<close> never reads:
  a request that passed the middleware in front of the logout handler passes it again
  afterwards, at the same clock.
\<close>

lemma authenticateToken_tokens_update:
  "authenticateToken e now (updateOne (\<lambda>u. oid u = i) (\<lambda>u. u\<lparr>tokens := g u\<rparr>) s) req =
     authenticateToken e now s req"
  unfolding authenticateToken_def
  by (auto simp: findById_updateOne split: option.splits sum.splits)

text \<open>
  C7. Revoking all refresh tokens is idempotent. A logout that names no refresh token
  (the body's \<^verbatim>\<open>refreshToken\<close> is absent or empty) answers with success; after it the
  account holds no stored token record; a second such logout answers with success
  again and leaves the collection exactly as the first left it, so it removes nothing.
  The middleware in front of the handler answers the second request as it answered
  the first.
\<close>

theorem logout_all_idempotent:
  assumes "refreshToken = None \<or> refreshToken = Some (Malformed [])"
  shows "fst (logout s this refreshToken) = Inr () \<and>
         stored_tokens (snd (logout s this refreshToken)) (oid this) = [] \<and>
         logout (snd (logout s this refreshToken)) this refreshToken =
           (Inr (), snd (logout s this refreshToken)) \<and>
         authenticateToken e now (snd (logout s this refreshToken)) req =
           authenticateToken e now s req"
proof -
  let ?f = "\<lambda>u::user. u\<lparr>tokens := []\<rparr>"
  have l: "logout t this refreshToken = (Inr (), updateOne (\<lambda>u. oid u = oid this) ?f t)" for t
    using assms by (auto simp: logout_def)
  have "stored_tokens (updateOne (\<lambda>u. oid u = oid this) ?f s) (oid this) = []"
    by (simp add: stored_tokens_def findById_updateOne split: option.splits)
  moreover have "updateOne (\<lambda>u. oid u = oid this) ?f (updateOne (\<lambda>u. oid u = oid this) ?f s)
      = updateOne (\<lambda>u. oid u = oid this) ?f s"
    by (rule updateOne_idem) simp
  ultimately show ?thesis by (simp add: l authenticateToken_tokens_update)
qed

text \<open>The same on a collection where \<open>alice\<close> holds one refresh record.\<close>

theorem logout_all_idempotent_witness:
  "fst (logout [alice_logged_in] alice None) = Inr () \<and>
   stored_tokens [alice_logged_in] 1 \<noteq> [] \<and>
   stored_tokens (snd (logout [alice_logged_in] alice None)) 1 = [] \<and>
   logout (snd (logout [alice_logged_in] alice None)) alice None =
     (Inr (), snd (logout [alice_logged_in] alice None))"
proof -
  have "oid alice = 1" by (simp add: alice_def)
  moreover have "stored_tokens [alice_logged_in] 1 \<noteq> []"
    by (simp add: stored_tokens_def findById_def alice_logged_in_def alice_def)
  ultimately show ?thesis
    using logout_all_idempotent [of None "[alice_logged_in]" alice] by simp
qed

section \<open>Issuing and verifying access tokens\<close>

lemma generateTokens_Inr:
  "generateTokens e now user = Inr (a, r) \<Longrightarrow>
     JWT_SECRET e \<noteq> [] \<and> JWT_REFRESH_SECRET e \<noteq> [] \<and>
     a = Jwt \<lparr>payload_id = oid user, payload_email = email user,
              payload_displayName = displayName user\<rparr> (now div 1000)
            (now div 1000 + (case JWT_ACCESS_EXPIRES_IN e of None \<Rightarrow> 900 | Some n \<Rightarrow> n))
            (JWT_SECRET e)"
  by (auto simp: generateTokens_def jwt_sign_def Let_def split: if_splits sum.splits)

lemma issue0: "generateTokens env0 5000 alice = Inr (access0, refresh0)"
  by (simp add: generateTokens_def jwt_sign_def env0_def alice_def access0_def refresh0_def
      Let_def)



text \<open>
  C6, as the code has it. An access token whose expiry is at or before the clock fails
  with 401 \<^verbatim>\<open>TOKEN_EXPIRED\<close> when its signature verifies under the access secret; when
  the signature does not verify, the same expired token fails with 403
  \<^verbatim>\<open>TOKEN_VERIFICATION_FAILED\<close> instead, since \<^verbatim>\<open>jwt.verify\<close> checks the signature
  before it reads the expiry. The two failures are distinct replies. Both middleware
  behave alike.
\<close>

theorem expired_access_token:
  assumes tok: "bearer (authorization req) = Some (Jwt p i x k)"
    and past: "x \<le> now div 1000"
  shows "(k = JWT_SECRET e \<and> k \<noteq> [] \<longrightarrow>
            authenticateToken e now s req = Inl (Reply 401 ''TOKEN_EXPIRED'') \<and>
            validateOAuthToken e now s req = Inl (Reply 401 ''TOKEN_EXPIRED'')) \<and>
         (k \<noteq> JWT_SECRET e \<longrightarrow>
            authenticateToken e now s req = Inl (Reply 403 ''TOKEN_VERIFICATION_FAILED'') \<and>
            validateOAuthToken e now s req = Inl (Reply 403 ''TOKEN_VERIFICATION_FAILED''))"
  using past by (simp add: authenticateToken_def validateOAuthToken_def tok jwt_verify_def)

text \<open>
  At 906 s the token issued for \<open>alice\<close> (expiry 905 s) is expired; the token
  \<open>forged0\<close> has the same claims under a secret that is not the server's.
\<close>

theorem expired_access_token_witness:
  "authenticateToken env0 906000 [alice] (with_bearer req0 access0) =
     Inl (Reply 401 ''TOKEN_EXPIRED'') \<and>
   validateOAuthToken env0 906000 [alice] (with_bearer req0 access0) =
     Inl (Reply 401 ''TOKEN_EXPIRED'') \<and>
   authenticateToken env0 906000 [alice] (with_bearer req0 forged0) =
     Inl (Reply 403 ''TOKEN_VERIFICATION_FAILED'') \<and>
   validateOAuthToken env0 906000 [alice] (with_bearer req0 forged0) =
     Inl (Reply 403 ''TOKEN_VERIFICATION_FAILED'')"
proof -
  have a: "bearer (authorization (with_bearer req0 access0)) =
      Some (Jwt \<lparr>payload_id = 1, payload_email = ''a@x.com'', payload_displayName = ''Alice''\<rparr>
               5 905 ''access-secret'')"
    and f: "bearer (authorization (with_bearer req0 forged0)) =
      Some (Jwt \<lparr>payload_id = 1, payload_email = ''a@x.com'', payload_displayName = ''Alice''\<rparr>
               5 905 ''guessed-secret'')"
    by (simp_all add: bearer_def with_bearer_def access0_def forged0_def)
  have p: "(905::int) \<le> 906000 div 1000" by simp
  from expired_access_token [OF a p, of env0 "[alice]"]
    expired_access_token [OF f p, of env0 "[alice]"]
  show ?thesis by (simp add: env0_def)
qed

text \<open>
  The claim as stated fails: the expiry of \<open>forged0\<close> is in the past at 906 s, and
  neither middleware answers \<^verbatim>\<open>TOKEN_EXPIRED\<close>.
\<close>

theorem expired_forged_token_counterexample:
  "jwt_exp forged0 < 906000 div 1000 \<and>
   authenticateToken env0 906000 [alice] (with_bearer req0 forged0) \<noteq>
     Inl (Reply 401 ''TOKEN_EXPIRED'') \<and>
   validateOAuthToken env0 906000 [alice] (with_bearer req0 forged0) \<noteq>
     Inl (Reply 401 ''TOKEN_EXPIRED'')"
  by (simp add: authenticateToken_def validateOAuthToken_def bearer_def with_bearer_def
      forged0_def jwt_verify_def env0_def)

section \<open>Refreshing\<close>

text \<open>
  C8, as the code has it. A token whose signature does not verify under the refresh
  secret never yields a new access token: the refresh handler answers 500
  \<^verbatim>\<open>TOKEN_REFRESH_ERROR\<close> (its \<^verbatim>\<open>catch\<close> singles out only \<^verbatim>\<open>TokenExpiredError\<close>) and
  leaves the collection as it was. In particular this is the answer to an access token
  issued by \<^verbatim>\<open>generateTokens\<close> when the two secrets differ.
\<close>

theorem refresh_foreign_signature:
  "(k \<noteq> JWT_REFRESH_SECRET e \<longrightarrow>
      refresh e now s (Some (Jwt p i x k)) = (Inl (Reply 500 ''TOKEN_REFRESH_ERROR''), s)) \<and>
   (generateTokens e issued user = Inr (accessToken, refreshToken) \<and>
    JWT_SECRET e \<noteq> JWT_REFRESH_SECRET e \<longrightarrow>
      refresh e now s (Some accessToken) = (Inl (Reply 500 ''TOKEN_REFRESH_ERROR''), s))"
  by (auto simp: refresh_def jwt_verify_def refresh_catch_def dest!: generateTokens_Inr)

theorem refresh_foreign_signature_witness:
  "refresh env0 6000 [alice_logged_in] (Some forged0) =
     (Inl (Reply 500 ''TOKEN_REFRESH_ERROR''), [alice_logged_in]) \<and>
   refresh env0 6000 [alice_logged_in] (Some access0) =
     (Inl (Reply 500 ''TOKEN_REFRESH_ERROR''), [alice_logged_in])"
proof -
  have "''guessed-secret'' \<noteq> JWT_REFRESH_SECRET env0"
    "JWT_SECRET env0 \<noteq> JWT_REFRESH_SECRET env0"
    by (simp_all add: env0_def)
  with refresh_foreign_signature [of "''guessed-secret''" env0 6000 "[alice_logged_in]"
        "\<lparr>payload_id = 1, payload_email = ''a@x.com'', payload_displayName = ''Alice''\<rparr>" 5 905
        5000 alice access0 refresh0] issue0
  show ?thesis by (simp add: forged0_def)
qed

text \<open>
  The claim as stated fails: the access token issued for \<open>alice\<close>, presented to the
  refresh handler, is not answered with \<^verbatim>\<open>INVALID_REFRESH_TOKEN\<close>.
\<close>

theorem refresh_access_token_counterexample:
  "generateTokens env0 5000 alice = Inr (access0, refresh0) \<and>
   fst (refresh env0 6000 [alice_logged_in] (Some access0)) \<noteq>
     Inl (Reply 401 ''INVALID_REFRESH_TOKEN'') \<and>
   fst (refresh env0 6000 [alice_logged_in] (Some access0)) =
     Inl (Reply 500 ''TOKEN_REFRESH_ERROR'')"
  by (simp add: issue0) (simp add: refresh_def access0_def jwt_verify_def env0_def refresh_catch_def)

section \<open>The authorization gate\<close>

lemma run_gate:
  "run_chain (gate e now s @ rest) hits req =
     (let hits' = hits(ip req := Suc (hits (ip req))) in
      if 100 \<le> hits (ip req) then ([RateLimit], Inl (Reply 429 ''RATE_LIMIT_EXCEEDED''), hits')
      else case validateApiKey e req of
          Inl r \<Rightarrow> ([RateLimit, SharedSecret], Inl r, hits')
        | Inr req1 \<Rightarrow>
            (case validateOAuthToken e now s req1 of
               Inl r \<Rightarrow> ([RateLimit, SharedSecret, BearerToken], Inl r, hits')
             | Inr req2 \<Rightarrow>
                 (case run_chain rest hits' req2 of
                    (executed, out, hits'') \<Rightarrow>
                      (RateLimit # SharedSecret # BearerToken # executed, out, hits''))))"
  by (simp add: gate_def dataLimiter_def rateLimit_def stateless_def Let_def
      split: sum.splits prod.splits)

lemma run_post_records:
  "run_chain (post_records e now s) hits req =
     (let hits' = hits(ip req := Suc (hits (ip req))) in
      if 100 \<le> hits (ip req) then ([RateLimit], Inl (Reply 429 ''RATE_LIMIT_EXCEEDED''), hits')
      else case validateApiKey e req of
          Inl r \<Rightarrow> ([RateLimit, SharedSecret], Inl r, hits')
        | Inr req1 \<Rightarrow>
            (case validateOAuthToken e now s req1 of
               Inl r \<Rightarrow> ([RateLimit, SharedSecret, BearerToken], Inl r, hits')
             | Inr req2 \<Rightarrow>
                 ([RateLimit, SharedSecret, BearerToken, InputValidation],
                  validateInputData req2, hits')))"
  by (simp add: post_records_def run_gate stateless_def Let_def split: sum.splits)

text \<open>
  C4. The gate of a protected data request runs rate limit, shared secret and bearer
  token in this order and stops at the first that fails, whatever the route lists
  after them (\<open>rest\<close>: the input validation of \<^verbatim>\<open>POST /records\<close>, nothing for the
  \<^verbatim>\<open>GET\<close> routes). The stages that ran are the rate limit alone, or the rate limit and
  the shared secret, or begin with all three in order. When the limiter refuses,
  nothing else runs; when the shared-secret check fails, the bearer-token check does
  not run; when the bearer-token check fails, nothing after it runs. In particular a
  request within its rate budget and without an \<^verbatim>\<open>x-api-key\<close> header is answered 401
  \<^verbatim>\<open>MISSING_API_KEY\<close> with no token verification, while one with the right key and an
  expired access token (signed with the access secret) is answered 401
  \<^verbatim>\<open>TOKEN_EXPIRED\<close>.
\<close>

theorem gate_order:
  "(fst (run_chain (gate e now s @ rest) hits req) = [RateLimit] \<or>
    fst (run_chain (gate e now s @ rest) hits req) = [RateLimit, SharedSecret] \<or>
    take 3 (fst (run_chain (gate e now s @ rest) hits req)) =
      [RateLimit, SharedSecret, BearerToken]) \<and>
   (100 \<le> hits (ip req) \<longrightarrow>
      fst (run_chain (gate e now s @ rest) hits req) = [RateLimit] \<and>
      fst (snd (run_chain (gate e now s @ rest) hits req)) =
        Inl (Reply 429 ''RATE_LIMIT_EXCEEDED'')) \<and>
   (hits (ip req) < 100 \<and> validateApiKey e req = Inl r \<longrightarrow>
      fst (run_chain (gate e now s @ rest) hits req) = [RateLimit, SharedSecret] \<and>
      fst (snd (run_chain (gate e now s @ rest) hits req)) = Inl r) \<and>
   (hits (ip req) < 100 \<and> validateApiKey e req = Inr req \<and>
    validateOAuthToken e now s req = Inl r \<longrightarrow>
      fst (run_chain (gate e now s @ rest) hits req) =
        [RateLimit, SharedSecret, BearerToken] \<and>
      fst (snd (run_chain (gate e now s @ rest) hits req)) = Inl r) \<and>
   (hits (ip req) < 100 \<and> x_api_key req = None \<longrightarrow>
      fst (run_chain (gate e now s @ rest) hits req) = [RateLimit, SharedSecret] \<and>
      fst (snd (run_chain (gate e now s @ rest) hits req)) =
        Inl (Reply 401 ''MISSING_API_KEY'')) \<and>
   (hits (ip req) < 100 \<and> x_api_key req = Some (API_KEY e) \<and> API_KEY e \<noteq> [] \<and>
    bearer (authorization req) = Some (Jwt p i x (JWT_SECRET e)) \<and> JWT_SECRET e \<noteq> [] \<and>
    x \<le> now div 1000 \<longrightarrow>
      fst (run_chain (gate e now s @ rest) hits req) =
        [RateLimit, SharedSecret, BearerToken] \<and>
      fst (snd (run_chain (gate e now s @ rest) hits req)) =
        Inl (Reply 401 ''TOKEN_EXPIRED''))"
proof -
  have 1: "fst (run_chain (gate e now s @ rest) hits req) = [RateLimit] \<or>
    fst (run_chain (gate e now s @ rest) hits req) = [RateLimit, SharedSecret] \<or>
    take 3 (fst (run_chain (gate e now s @ rest) hits req)) =
      [RateLimit, SharedSecret, BearerToken]"
    by (simp add: run_gate Let_def split: sum.splits prod.splits)
  have 2: "100 \<le> hits (ip req) \<longrightarrow>
      fst (run_chain (gate e now s @ rest) hits req) = [RateLimit] \<and>
      fst (snd (run_chain (gate e now s @ rest) hits req)) =
        Inl (Reply 429 ''RATE_LIMIT_EXCEEDED'')"
    by (simp add: run_gate Let_def)
  have 3: "hits (ip req) < 100 \<and> validateApiKey e req = Inl r \<longrightarrow>
      fst (run_chain (gate e now s @ rest) hits req) = [RateLimit, SharedSecret] \<and>
      fst (snd (run_chain (gate e now s @ rest) hits req)) = Inl r"
    by (simp add: run_gate Let_def)
  have 4: "hits (ip req) < 100 \<and> validateApiKey e req = Inr req \<and>
    validateOAuthToken e now s req = Inl r \<longrightarrow>
      fst (run_chain (gate e now s @ rest) hits req) =
        [RateLimit, SharedSecret, BearerToken] \<and>
      fst (snd (run_chain (gate e now s @ rest) hits req)) = Inl r"
    by (simp add: run_gate Let_def)
  have 5: "hits (ip req) < 100 \<and> x_api_key req = None \<longrightarrow>
      fst (run_chain (gate e now s @ rest) hits req) = [RateLimit, SharedSecret] \<and>
      fst (snd (run_chain (gate e now s @ rest) hits req)) =
        Inl (Reply 401 ''MISSING_API_KEY'')"
    by (simp add: run_gate Let_def validateApiKey_def)
  have 6: "hits (ip req) < 100 \<and> x_api_key req = Some (API_KEY e) \<and> API_KEY e \<noteq> [] \<and>
    bearer (authorization req) = Some (Jwt p i x (JWT_SECRET e)) \<and> JWT_SECRET e \<noteq> [] \<and>
    x \<le> now div 1000 \<longrightarrow>
      fst (run_chain (gate e now s @ rest) hits req) =
        [RateLimit, SharedSecret, BearerToken] \<and>
      fst (snd (run_chain (gate e now s @ rest) hits req)) =
        Inl (Reply 401 ''TOKEN_EXPIRED'')"
    by (simp add: run_gate Let_def validateApiKey_def validateOAuthToken_def
        jwt_verify_def)
  from 1 2 3 4 5 6 show ?thesis by blast
qed

text \<open>
  Three requests to \<^verbatim>\<open>POST /records\<close> at 906 s: one without the key, one with the key
  and the expired token of \<open>alice\<close>, and the latter from an address that has used up
  its budget.
\<close>

theorem gate_order_witness:
  "fst (run_chain (post_records env0 906000 [alice]) (\<lambda>a. 0) (req0\<lparr>x_api_key := None\<rparr>)) =
     [RateLimit, SharedSecret] \<and>
   fst (snd (run_chain (post_records env0 906000 [alice]) (\<lambda>a. 0) (req0\<lparr>x_api_key := None\<rparr>))) =
     Inl (Reply 401 ''MISSING_API_KEY'') \<and>
   fst (run_chain (post_records env0 906000 [alice]) (\<lambda>a. 0) (with_bearer req0 access0)) =
     [RateLimit, SharedSecret, BearerToken] \<and>
   fst (snd (run_chain (post_records env0 906000 [alice]) (\<lambda>a. 0) (with_bearer req0 access0))) =
     Inl (Reply 401 ''TOKEN_EXPIRED'') \<and>
   fst (run_chain (post_records env0 906000 [alice]) (\<lambda>a. 100) (with_bearer req0 access0)) =
     [RateLimit]"
proof -
  let ?rest = "[(InputValidation, stateless validateInputData)]"
  have a: "x_api_key (req0\<lparr>x_api_key := None\<rparr>) = None" by simp
  have b: "x_api_key (with_bearer req0 access0) = Some (API_KEY env0)" "API_KEY env0 \<noteq> []"
    "bearer (authorization (with_bearer req0 access0)) =
      Some (Jwt \<lparr>payload_id = 1, payload_email = ''a@x.com'', payload_displayName = ''Alice''\<rparr>
               5 905 (JWT_SECRET env0))"
    "JWT_SECRET env0 \<noteq> []" "(905::int) \<le> 906000 div 1000"
    by (simp_all add: with_bearer_def req0_def env0_def bearer_def access0_def)
  from gate_order [of env0 906000 "[alice]" ?rest "\<lambda>a. 0" "req0\<lparr>x_api_key := None\<rparr>"] a
  have 1: "fst (run_chain (post_records env0 906000 [alice]) (\<lambda>a. 0) (req0\<lparr>x_api_key := None\<rparr>)) =
     [RateLimit, SharedSecret] \<and>
   fst (snd (run_chain (post_records env0 906000 [alice]) (\<lambda>a. 0) (req0\<lparr>x_api_key := None\<rparr>))) =
     Inl (Reply 401 ''MISSING_API_KEY'')" by (simp add: post_records_def)
  from gate_order [of env0 906000 "[alice]" ?rest "\<lambda>a. 0" "with_bearer req0 access0" _
       "\<lparr>payload_id = 1, payload_email = ''a@x.com'', payload_displayName = ''Alice''\<rparr>" 5 905] b
  have 2: "fst (run_chain (post_records env0 906000 [alice]) (\<lambda>a. 0) (with_bearer req0 access0)) =
     [RateLimit, SharedSecret, BearerToken] \<and>
   fst (snd (run_chain (post_records env0 906000 [alice]) (\<lambda>a. 0) (with_bearer req0 access0))) =
     Inl (Reply 401 ''TOKEN_EXPIRED'')" by (simp add: post_records_def)
  from gate_order [of env0 906000 "[alice]" ?rest "\<lambda>a. 100" "with_bearer req0 access0"]
  have 3: "fst (run_chain (post_records env0 906000 [alice]) (\<lambda>a. 100) (with_bearer req0 access0)) =
     [RateLimit]" by (simp add: post_records_def)
  from 1 2 3 show ?thesis by blast
qed

lemma validateApiKey_Inl:
  "validateApiKey e req = Inl r \<Longrightarrow> r = Reply 401 ''MISSING_API_KEY'' \<or> r = Reply 403 ''INVALID_API_KEY''"
  by (auto simp: validateApiKey_def split: option.splits if_splits)

lemma validateOAuthToken_Inl:
  "validateOAuthToken e now s req = Inl r \<Longrightarrow>
     r = Reply 401 ''MISSING_TOKEN'' \<or> r = Reply 401 ''TOKEN_EXPIRED'' \<or>
     r = Reply 403 ''TOKEN_VERIFICATION_FAILED'' \<or> r = Reply 401 ''INVALID_TOKEN''"
  by (auto simp: validateOAuthToken_def split: option.splits if_splits sum.splits)

lemma authenticateToken_Inl:
  "authenticateToken e now s req = Inl r \<Longrightarrow>
     r = Reply 401 ''MISSING_TOKEN'' \<or> r = Reply 401 ''TOKEN_EXPIRED'' \<or>
     r = Reply 403 ''TOKEN_VERIFICATION_FAILED'' \<or> r = Reply 401 ''INVALID_TOKEN''"
  by (auto simp: authenticateToken_def split: option.splits if_splits sum.splits)

lemma validateInputData_Inl:
  "validateInputData req = Inl r \<Longrightarrow>
     r = Reply 500 ''INPUT_VALIDATION_ERROR'' \<or> 
     r = Reply 400 ''MISSING_REQUIRED_FIELDS'' \<or> r = Reply 400 ''MISSING_WEATHER_FIELD'' \<or>
     r = Reply 400 ''MISSING_COUNTRY_FIELD'' \<or> r = Reply 400 ''INVALID_LANGUAGES_ARRAY'' \<or>
     r = Reply 400 ''INVALID_CURRENCIES_ARRAY'' \<or> r = Reply 400 ''INVALID_TIMEZONES_ARRAY''"
  unfolding validateInputData_def Let_def by (auto split: if_splits)

lemma refresh_Inl:
  "fst (refresh e now s rt) = Inl r \<Longrightarrow>
     r = Reply 400 ''MISSING_REFRESH_TOKEN'' \<or> r = Reply 401 ''REFRESH_TOKEN_EXPIRED'' \<or>
     r = Reply 401 ''INVALID_REFRESH_TOKEN'' \<or> r = Reply 500 ''TOKEN_REFRESH_ERROR''"
  by (auto simp: refresh_def refresh_catch_def split: option.splits if_splits sum.splits prod.splits)

text \<open>
  C9, as the code has it. Every failure that the gate of the protected data routes,
  \<^verbatim>\<open>authenticateToken\<close> or the refresh handler surfaces is one of the replies listed,
  each code with its one HTTP status: 401 for a missing API key, a missing access
  token, an expired token and for \<^verbatim>\<open>INVALID_TOKEN\<close>; 403 for an invalid API key and
  for a token that fails verification; 429 for the rate limit; 400 for the input
  validation failures and for a missing refresh token; 500 for a body that cannot be
  read and for the refresh handler's catch-all. In particular a signature-valid,
  unexpired access token of an account whose status is not \<^verbatim>\<open>active\<close> is answered 401
  \<^verbatim>\<open>INVALID_TOKEN\<close> by both bearer-token middleware: the code has no reply of its own
  for an inactive account.
\<close>

theorem failure_statuses:
  "(fst (snd (run_chain (post_records e now s) hits req)) = Inl r \<longrightarrow>
      r \<in> set [Reply 429 ''RATE_LIMIT_EXCEEDED'', Reply 401 ''MISSING_API_KEY'',
                 Reply 403 ''INVALID_API_KEY'', Reply 401 ''MISSING_TOKEN'',
                 Reply 401 ''TOKEN_EXPIRED'', Reply 403 ''TOKEN_VERIFICATION_FAILED'',
                 Reply 401 ''INVALID_TOKEN'', Reply 400 ''MISSING_REQUIRED_FIELDS'',
                 Reply 400 ''MISSING_WEATHER_FIELD'', Reply 400 ''MISSING_COUNTRY_FIELD'',
                 Reply 400 ''INVALID_LANGUAGES_ARRAY'', Reply 400 ''INVALID_CURRENCIES_ARRAY'',
                 Reply 400 ''INVALID_TIMEZONES_ARRAY'', Reply 500 ''INPUT_VALIDATION_ERROR'']) \<and>
   (authenticateToken e now s req = Inl r \<longrightarrow>
      r \<in> set [Reply 401 ''MISSING_TOKEN'', Reply 401 ''TOKEN_EXPIRED'',
                 Reply 403 ''TOKEN_VERIFICATION_FAILED'', Reply 401 ''INVALID_TOKEN'']) \<and>
   (fst (refresh e now s refreshToken) = Inl r \<longrightarrow>
      r \<in> set [Reply 400 ''MISSING_REFRESH_TOKEN'', Reply 401 ''REFRESH_TOKEN_EXPIRED'',
                 Reply 401 ''INVALID_REFRESH_TOKEN'', Reply 500 ''TOKEN_REFRESH_ERROR'']) \<and>
   (bearer (authorization req) = Some (Jwt p i x (JWT_SECRET e)) \<and> JWT_SECRET e \<noteq> [] \<and>
    now div 1000 < x \<and> findById s (payload_id p) = Some u \<and> status u \<noteq> Active \<longrightarrow>
      validateOAuthToken e now s req = Inl (Reply 401 ''INVALID_TOKEN'') \<and>
      authenticateToken e now s req = Inl (Reply 401 ''INVALID_TOKEN''))"
proof -
  have 1: "fst (snd (run_chain (post_records e now s) hits req)) = Inl r \<longrightarrow>
      r \<in> set [Reply 429 ''RATE_LIMIT_EXCEEDED'', Reply 401 ''MISSING_API_KEY'',
                 Reply 403 ''INVALID_API_KEY'', Reply 401 ''MISSING_TOKEN'',
                 Reply 401 ''TOKEN_EXPIRED'', Reply 403 ''TOKEN_VERIFICATION_FAILED'',
                 Reply 401 ''INVALID_TOKEN'', Reply 400 ''MISSING_REQUIRED_FIELDS'',
                 Reply 400 ''MISSING_WEATHER_FIELD'', Reply 400 ''MISSING_COUNTRY_FIELD'',
                 Reply 400 ''INVALID_LANGUAGES_ARRAY'', Reply 400 ''INVALID_CURRENCIES_ARRAY'',
                 Reply 400 ''INVALID_TIMEZONES_ARRAY'', Reply 500 ''INPUT_VALIDATION_ERROR'']"
  proof
    assume a: "fst (snd (run_chain (post_records e now s) hits req)) = Inl r"
    consider "r = Reply 429 ''RATE_LIMIT_EXCEEDED''" | "validateApiKey e req = Inl r"
      | req1 where "validateOAuthToken e now s req1 = Inl r"
      | req2 where "validateInputData req2 = Inl r"
      using a by (auto simp: run_post_records Let_def split: if_splits sum.splits)
    then show "r \<in> set [Reply 429 ''RATE_LIMIT_EXCEEDED'', Reply 401 ''MISSING_API_KEY'',
                 Reply 403 ''INVALID_API_KEY'', Reply 401 ''MISSING_TOKEN'',
                 Reply 401 ''TOKEN_EXPIRED'', Reply 403 ''TOKEN_VERIFICATION_FAILED'',
                 Reply 401 ''INVALID_TOKEN'', Reply 400 ''MISSING_REQUIRED_FIELDS'',
                 Reply 400 ''MISSING_WEATHER_FIELD'', Reply 400 ''MISSING_COUNTRY_FIELD'',
                 Reply 400 ''INVALID_LANGUAGES_ARRAY'', Reply 400 ''INVALID_CURRENCIES_ARRAY'',
                 Reply 400 ''INVALID_TIMEZONES_ARRAY'', Reply 500 ''INPUT_VALIDATION_ERROR'']"
    proof cases
      case 1 then show ?thesis by simp
    next
      case 2 from validateApiKey_Inl [OF this] show ?thesis by auto
    next
      case 3 from validateOAuthToken_Inl [OF this] show ?thesis by auto
    next
      case 4 from validateInputData_Inl [OF this] show ?thesis by auto
    qed
  qed
  have 2: "authenticateToken e now s req = Inl r \<longrightarrow>
      r \<in> set [Reply 401 ''MISSING_TOKEN'', Reply 401 ''TOKEN_EXPIRED'',
                 Reply 403 ''TOKEN_VERIFICATION_FAILED'', Reply 401 ''INVALID_TOKEN'']"
    using authenticateToken_Inl [of e now s req r] by auto
  have 3: "fst (refresh e now s refreshToken) = Inl r \<longrightarrow>
      r \<in> set [Reply 400 ''MISSING_REFRESH_TOKEN'', Reply 401 ''REFRESH_TOKEN_EXPIRED'',
                 Reply 401 ''INVALID_REFRESH_TOKEN'', Reply 500 ''TOKEN_REFRESH_ERROR'']"
    using refresh_Inl [of e now s refreshToken r] by auto
  have 4: "bearer (authorization req) = Some (Jwt p i x (JWT_SECRET e)) \<and> JWT_SECRET e \<noteq> [] \<and>
    now div 1000 < x \<and> findById s (payload_id p) = Some u \<and> status u \<noteq> Active \<longrightarrow>
      validateOAuthToken e now s req = Inl (Reply 401 ''INVALID_TOKEN'') \<and>
      authenticateToken e now s req = Inl (Reply 401 ''INVALID_TOKEN'')"
    by (simp add: validateOAuthToken_def authenticateToken_def jwt_verify_def)
  from 1 2 3 4 show ?thesis by blast
qed

text \<open>The token of \<open>alice\<close>, valid at 5 s, after her account was suspended.\<close>

theorem failure_statuses_witness:
  "validateOAuthToken env0 5000 [alice_suspended] (with_bearer req0 access0) =
     Inl (Reply 401 ''INVALID_TOKEN'') \<and>
   authenticateToken env0 5000 [alice_suspended] (with_bearer req0 access0) =
     Inl (Reply 401 ''INVALID_TOKEN'')"
proof -
  have "bearer (authorization (with_bearer req0 access0)) =
      Some (Jwt \<lparr>payload_id = 1, payload_email = ''a@x.com'', payload_displayName = ''Alice''\<rparr>
               5 905 (JWT_SECRET env0))"
    "JWT_SECRET env0 \<noteq> []" "(5000::int) div 1000 < 905"
    "findById [alice_suspended] (payload_id \<lparr>payload_id = 1, payload_email = ''a@x.com'',
        payload_displayName = ''Alice''\<rparr>) = Some alice_suspended"
    "status alice_suspended \<noteq> Active"
    by (simp_all add: with_bearer_def bearer_def access0_def env0_def findById_def
        alice_suspended_def alice_def)
  with failure_statuses [of env0 5000 "[alice_suspended]" _ "with_bearer req0 access0" _ _
      "\<lparr>payload_id = 1, payload_email = ''a@x.com'', payload_displayName = ''Alice''\<rparr>" 5 905
      alice_suspended]
  show ?thesis by blast
qed

text \<open>
  The claim as stated fails: the suspended account with a valid token is answered 401,
  not 403, and a refresh request without a token is answered 400, not 401.
\<close>

theorem inactive_account_counterexample:
  "status alice_suspended \<noteq> Active \<and>
   jwt_verify access0 (JWT_SECRET env0) 5000 =
     Inr \<lparr>payload_id = 1, payload_email = ''a@x.com'', payload_displayName = ''Alice''\<rparr> \<and>
   validateOAuthToken env0 5000 [alice_suspended] (with_bearer req0 access0) =
     Inl (Reply 401 ''INVALID_TOKEN'') \<and>
   authenticateToken env0 5000 [alice_suspended] (with_bearer req0 access0) =
     Inl (Reply 401 ''INVALID_TOKEN'') \<and>
   fst (refresh env0 5000 [alice] None) = Inl (Reply 400 ''MISSING_REFRESH_TOKEN'')"
  by (simp add: validateOAuthToken_def authenticateToken_def with_bearer_def bearer_def
      access0_def env0_def findById_def alice_suspended_def alice_def jwt_verify_def refresh_def)

section \<open>Refresh and the stored record\<close>

lemma valid_user_tokens_lastActive:
  "valid_user (u\<lparr>tokens := t\<rparr>) = valid_user u" "valid_user (u\<lparr>lastActive := n\<rparr>) = valid_user u"
  by (simp_all add: valid_user_def)

text \<open>
  With refresh tokens that live 30 days, a login of \<open>alice\<close> at day 0 and another at
  day 10 leave her two records in the collection.
\<close>

lemma two_logins:
  "snd (google_callback env30 0 alice [alice]) = [alice\<lparr>tokens :=
       [\<lparr>token = session1, token_kind = Refresh, expiresAt = 604800000, createdAt = 0\<rparr>]\<rparr>]"
  "snd (google_callback env30 864000000
      (alice\<lparr>tokens := [\<lparr>token = session1, token_kind = Refresh, expiresAt = 604800000,
          createdAt = 0\<rparr>]\<rparr>)
      [alice\<lparr>tokens := [\<lparr>token = session1, token_kind = Refresh, expiresAt = 604800000,
          createdAt = 0\<rparr>]\<rparr>]) = [alice_two_sessions]"
  by (simp_all add: google_callback_def generateTokens_def jwt_sign_def env30_def env0_def Let_def
      save_def updateLastActive_def valid_user_tokens_lastActive valid_alice session1_def
      session2_def alice_two_sessions_def)
     (simp_all add: alice_def)

lemma find_SomeD: "find P xs = Some x \<Longrightarrow> P x \<and> x \<in> set xs"
  by (auto simp: find_Some_iff)

text \<open>
  What an issued access token does imply: the signature of the refresh token verifies
  and it is unexpired, the account is active, and each of the three conditions holds of
  some stored record of the account.
\<close>

lemma refresh_issues_only:
  assumes "refresh e now s (Some tok) = (Inr a, s')"
  shows "\<exists>p u. jwt_verify tok (JWT_REFRESH_SECRET e) now = Inr p \<and> u \<in> set s \<and>
           oid u = payload_id p \<and> status u = Active \<and>
           list_ex (\<lambda>t. token t = tok) (tokens u) \<and>
           list_ex (\<lambda>t. token_kind t = Refresh) (tokens u) \<and>
           list_ex (\<lambda>t. now < expiresAt t) (tokens u)"
proof -
  from assms obtain p u where v: "jwt_verify tok (JWT_REFRESH_SECRET e) now = Inr p"
    and f: "find (refresh_filter (payload_id p) tok now) s = Some u" and a: "status u = Active"
    by (auto simp: refresh_def split: if_splits sum.splits option.splits prod.splits)
  from find_SomeD [OF f] have "refresh_filter (payload_id p) tok now u" "u \<in> set s" by simp_all
  with v a show ?thesis by (auto simp: refresh_filter_def)
qed

text \<open>
  A refresh token whose signature verifies and which no stored record carries, as after
  its revocation, is answered 401 \<^verbatim>\<open>INVALID_REFRESH_TOKEN\<close> and nothing is issued.
\<close>

lemma refresh_revoked_token:
  assumes v: "jwt_verify tok (JWT_REFRESH_SECRET e) now = Inr p"
    and r: "list_all (\<lambda>u. list_all (\<lambda>t. token t \<noteq> tok) (tokens u)) s"
  shows "refresh e now s (Some tok) = (Inl (Reply 401 ''INVALID_REFRESH_TOKEN''), s)"
proof -
  have "find (refresh_filter (payload_id p) tok now) s = None"
    using r by (auto simp: find_None_iff refresh_filter_def list_all_iff list_ex_iff)
  moreover have "tok \<noteq> Malformed []" using v by (auto simp: jwt_verify_def)
  ultimately show ?thesis by (simp add: refresh_def v)
qed

text \<open>
  C2. The refresh handler is to issue a new access token only for a token whose own
  stored record is of kind \<^verbatim>\<open>refresh\<close> and unexpired. The filter of its \<^verbatim>\<open>findOne\<close>
  does not tie the three conditions to one record. At day 12 the collection holds for
  \<open>alice\<close> the record of \<open>session1\<close>, expired since day 7, and the record of
  \<open>session2\<close>, good until day 17: no unexpired record carries \<open>session1\<close>, its
  signature verifies, and the handler issues a new access token for it.
\<close>

theorem refresh_expired_record:
  "filter (\<lambda>t. token t = session1 \<and> token_kind t = Refresh \<and> 1036800000 < expiresAt t)
      (stored_tokens [alice_two_sessions] 1) = [] \<and>
   jwt_verify session1 (JWT_REFRESH_SECRET env30) 1036800000 =
     Inr \<lparr>payload_id = 1, payload_email = ''a@x.com'', payload_displayName = ''Alice''\<rparr> \<and>
   fst (refresh env30 1036800000 [alice_two_sessions] (Some session1)) =
     Inr (Jwt \<lparr>payload_id = 1, payload_email = ''a@x.com'', payload_displayName = ''Alice''\<rparr>
            1036800 1037700 ''access-secret'')"
proof -
  have v: "valid_user alice_two_sessions"
    by (simp add: alice_two_sessions_def valid_user_tokens_lastActive valid_alice)
  have 1: "filter (\<lambda>t. token t = session1 \<and> token_kind t = Refresh \<and> 1036800000 < expiresAt t)
      (stored_tokens [alice_two_sessions] 1) = []"
    by (simp add: stored_tokens_def findById_def alice_two_sessions_def alice_def session1_def
        session2_def)
  have 2: "jwt_verify session1 (JWT_REFRESH_SECRET env30) 1036800000 =
     Inr \<lparr>payload_id = 1, payload_email = ''a@x.com'', payload_displayName = ''Alice''\<rparr>"
    by (simp add: jwt_verify_def session1_def env30_def env0_def)
  have f: "refresh_filter (Suc 0) session1 1036800000 alice_two_sessions"
    by (simp add: refresh_filter_def alice_two_sessions_def alice_def)
  have n: "session1 \<noteq> Malformed []" by (simp add: session1_def)
  have g: "generateTokens env30 1036800000 alice_two_sessions =
     Inr (Jwt \<lparr>payload_id = 1, payload_email = ''a@x.com'', payload_displayName = ''Alice''\<rparr>
            1036800 1037700 ''access-secret'',
          Jwt \<lparr>payload_id = 1, payload_email = ''a@x.com'', payload_displayName = ''Alice''\<rparr>
            1036800 3628800 ''refresh-secret'')"
    by (simp add: generateTokens_def jwt_sign_def env30_def env0_def Let_def alice_two_sessions_def
        alice_def)
  have s: "status alice_two_sessions = Active" by (simp add: alice_two_sessions_def alice_def)
  have 3: "fst (refresh env30 1036800000 [alice_two_sessions] (Some session1)) =
     Inr (Jwt \<lparr>payload_id = 1, payload_email = ''a@x.com'', payload_displayName = ''Alice''\<rparr>
            1036800 1037700 ''access-secret'')"
    by (simp add: refresh_def 2 f n g s updateLastActive_def save_def v valid_user_tokens_lastActive)
  from 1 2 3 show ?thesis by blast
qed

section \<open>Identity resolution\<close>

lemma valid_new_examples:
  "valid_user (new_google_user i bob_profile ''b@x.com'' None t)"
  "valid_user (new_google_user i returning_profile ''a@x.com'' None t)"
  "valid_user (new_google_user i linking_profile ''A@x.com'' None t)"
  by (simp_all add: new_google_user_def google_link_def bob_profile_def returning_profile_def
      linking_profile_def valid_user_def valid_provider_def valid_picture_def email_regex_def
      is_space_def trim_def lowercase_def lower_char_def)

lemma example_profiles:
  "profile_emails returning_profile = Some [''a@x.com'']" "first_photo returning_profile = Inr None"
  "profile_emails linking_profile = Some [''A@x.com'']" "first_photo linking_profile = Inr None"
  "profile_emails bob_profile = Some [''b@x.com'']" "first_photo bob_profile = Inr None"
  by (simp_all add: returning_profile_def linking_profile_def bob_profile_def first_photo_def)

lemma lowercase_examples:
  "lowercase (trim ''A@x.com'') = ''a@x.com''" "lowercase (trim ''a@x.com'') = ''a@x.com''"
  "lowercase (trim ''b@x.com'') = ''b@x.com''" "lowercase (trim ''c@x.com'') = ''c@x.com''"
  by (simp_all add: trim_def lowercase_def lower_char_def is_space_def)








text \<open>
  On a collection that holds links of other providers the provider query can return an
  account that holds no link with both the provider and the subject id, ahead of the
  account that does.
\<close>

lemma provider_query_any_elements:
  "findByOAuthProvider [carol, dave] Google ''h1'' = Some carol \<and>
   \<not> list_ex (\<lambda>p. provider p = Google \<and> providerId p = ''h1'') (providers carol) \<and>
   list_ex (\<lambda>p. provider p = Google \<and> providerId p = ''h1'') (providers dave)"
  by (simp add: findByOAuthProvider_def carol_def dave_def)




section \<open>Two first logins at once\<close>

text \<open>
  C3, as the code has it. When the lookups of a resolution find neither the link nor
  the email, and by the time of its \<^verbatim>\<open>save()\<close> another resolution has created an
  account with that email, the insert fails with the duplicate-key error, the
  \<^verbatim>\<open>catch\<close> block hands that error to \<^verbatim>\<open>done\<close> with no account, and nothing is
  retried; the collection is left as the other resolution left it, with its one
  account of that email.
\<close>

theorem duplicate_key_surfaces:
  assumes em: "profile_emails pr = Some (em # ems)"
    and ph: "first_photo pr = Inr pic"
    and n1: "findByOAuthProvider s Google (profile_id pr) = None"
    and n2: "findOne_email s em = None"
    and vn: "valid_user (new_google_user new_id pr em pic now)"
    and race: "list_ex (\<lambda>u. email u = lowercase (trim em)) s'"
  shows "google_verify now new_id pr s s' = (Inl DuplicateKeyError, s')"
proof -
  have "email (new_google_user new_id pr em pic now) = lowercase (trim em)"
    by (simp add: new_google_user_def)
  with race show ?thesis
    by (simp add: google_verify_def em n1 n2 ph save_new_def vn)
qed

text \<open>A resolution that read the empty collection and saves after \<open>alice\<close> exists.\<close>

theorem duplicate_key_surfaces_witness:
  "google_verify 1000 2 linking_profile [] [alice] = (Inl DuplicateKeyError, [alice])"
proof -
  have "findByOAuthProvider [] Google (profile_id linking_profile) = None"
    "findOne_email [] ''A@x.com'' = None"
    "list_ex (\<lambda>u. email u = lowercase (trim ''A@x.com'')) [alice]"
    by (simp_all add: findByOAuthProvider_def findOne_email_def lowercase_examples alice_def)
  from duplicate_key_surfaces [OF example_profiles(3,4) this(1,2) valid_new_examples(3) this(3)]
  show ?thesis .
qed

text \<open>
  The claim as stated fails: of two first logins of \<open>bob\<close> that both read the
  collection before either saved, the first creates the account and the second ends
  with the duplicate-key error as its result.
\<close>

theorem concurrent_first_logins_counterexample:
  "google_verify 900 2 bob_profile [alice] [alice] = (Inr (bob, True), [alice, bob]) \<and>
   google_verify 1000 3 bob_profile [alice] [alice, bob] = (Inl DuplicateKeyError, [alice, bob])"
proof -
  have n: "findByOAuthProvider [alice] Google (profile_id bob_profile) = None"
    "findOne_email [alice] ''b@x.com'' = None"
    by (simp_all add: findByOAuthProvider_def findOne_email_def alice_def bob_profile_def
        lowercase_examples)
  have e: "email alice \<noteq> ''b@x.com''" "email bob = ''b@x.com''"
    "email (new_google_user 3 bob_profile ''b@x.com'' None 1000) = ''b@x.com''"
    by (simp_all add: alice_def bob_def new_google_user_def lowercase_examples)
  have vb: "valid_user bob" unfolding bob_def by (rule valid_new_examples)
  have 1: "google_verify 900 2 bob_profile [alice] [alice] = (Inr (bob, True), [alice, bob])"
    using n e vb by (simp add: google_verify_def example_profiles save_new_def bob_def [symmetric])
  have 2: "google_verify 1000 3 bob_profile [alice] [alice, bob] =
      (Inl DuplicateKeyError, [alice, bob])"
    using n e by (simp add: google_verify_def example_profiles save_new_def valid_new_examples)
  from 1 2 show ?thesis by simp
qed


end
